theory Spec2Isabelle
  imports Main
begin

section \<open>The connection handlers of the node editor (useConnection.ts)\<close>

text \<open>
  The hook \<^verbatim>\<open>useConnection\<close> bundles three event handlers, \<^verbatim>\<open>onConnectStart\<close>,
  \<^verbatim>\<open>onConnect\<close> and \<^verbatim>\<open>onConnectEnd\<close>. They read and write five process-wide atoms
  and talk to two collaborators: the graph store (\<^verbatim>\<open>dispatch(edgesChanged(...))\<close>) and the
  renderer (\<^verbatim>\<open>updateNodeInternals(...)\<close>). The atoms are the fields of one record; the
  calls to the collaborators are appended, in the order the code makes them, to a trace.
\<close>

subsection \<open>Data\<close>

datatype HandleType = Source | Target

text \<open>A node as the handlers read it: \<^verbatim>\<open>node.id\<close> and \<^verbatim>\<open>node.data.type\<close>.\<close>

record Node =
  node_id :: string
  node_type :: string

text \<open>
  A template holds the field templates of its input and of its output handles, keyed by
  handle id. The field template itself is opaque to the handlers: the type \<open>'ft\<close>.
\<close>

record 'ft Template =
  inputs :: "string \<rightharpoonup> 'ft"
  outputs :: "string \<rightharpoonup> 'ft"

text \<open>The renderer's connection, and an edge: a connection with an identifier.\<close>

record Connection =
  source :: string
  sourceHandle :: "string option"
  target :: string
  targetHandle :: "string option"

record Edge = Connection +
  edge_id :: string

text \<open>
  What a property read \<^verbatim>\<open>obj[key]\<close> on a plain object finds: the object's own value for
  the key or, when the object has no such key of its own, the member of
  \<^verbatim>\<open>Object.prototype\<close> of that name (a function such as \<^verbatim>\<open>toString\<close>, or the prototype
  itself for \<^verbatim>\<open>__proto__\<close>), named here by its key.
\<close>

datatype 'a js_property = Own 'a | Inherited string

text \<open>
  The pending connection. Its field template is whatever the read
  \<^verbatim>\<open>fieldTemplates[handleId]\<close> found.
\<close>

record 'ft PendingConnection =
  nodeId :: string
  handleId :: string
  handleType :: HandleType
  fieldTemplate :: "'ft js_property"

text \<open>One change of a batch handed to \<^verbatim>\<open>edgesChanged\<close>.\<close>

datatype EdgeChange = Add Edge | Remove string

text \<open>A call to a collaborator.\<close>

datatype effect =
  Dispatch_edgesChanged "EdgeChange list"
  | UpdateNodeInternals "string list"

text \<open>
  The atoms \<^verbatim>\<open>$pendingConnection\<close>, \<^verbatim>\<open>$edgePendingUpdate\<close>, \<^verbatim>\<open>$mouseOverNode\<close>,
  \<^verbatim>\<open>$didUpdateEdge\<close> and \<^verbatim>\<open>$addNodeCmdk\<close>, and the trace of calls made so far.
\<close>

record 'ft world =
  pendingConnection :: "'ft PendingConnection option"
  edgePendingUpdate :: "Edge option"
  mouseOverNode :: "string option"
  didUpdateEdge :: bool
  addNodeCmdk :: bool
  effects :: "effect list"

text \<open>
  The two ways a handler throws: the failed assertion with its message, and the
  \<^verbatim>\<open>TypeError\<close> of a property read on \<^verbatim>\<open>undefined\<close>.
\<close>

datatype error = AssertionError string | TypeError

subsection \<open>JavaScript truthiness\<close>

text \<open>
  The handlers test identifiers of type \<^verbatim>\<open>string | null\<close> by truthiness
  (\<^verbatim>\<open>nodeId && handleId\<close>, \<^verbatim>\<open>!mouseOverNodeId\<close>, \<^verbatim>\<open>if (mouseOverNodeId)\<close>): \<^verbatim>\<open>null\<close> and
  the empty string are both falsy. \<open>truthy_string\<close> is the value as the guarded branch
  sees it: \<open>None\<close> when the test fails. Objects (a pending connection, an edge, a
  template) and the handle types \<^verbatim>\<open>'source'\<close>, \<^verbatim>\<open>'target'\<close> are truthy whenever they are
  not \<^verbatim>\<open>null\<close>/\<^verbatim>\<open>undefined\<close>.
\<close>

fun truthy_string :: "string option \<Rightarrow> string option" where
  "truthy_string None = None"
| "truthy_string (Some s) = (if s = [] then None else Some s)"

definition truthy :: "string option \<Rightarrow> bool" where
  "truthy v = (truthy_string v \<noteq> None)"

subsection \<open>The atoms' setters and the collaborators\<close>

definition set_pendingConnection ::
    "'ft PendingConnection option \<Rightarrow> 'ft world \<Rightarrow> 'ft world" where
  "set_pendingConnection v w = w\<lparr>pendingConnection := v\<rparr>"

definition set_didUpdateEdge :: "bool \<Rightarrow> 'ft world \<Rightarrow> 'ft world" where
  "set_didUpdateEdge v w = w\<lparr>didUpdateEdge := v\<rparr>"

definition set_addNodeCmdk :: "bool \<Rightarrow> 'ft world \<Rightarrow> 'ft world" where
  "set_addNodeCmdk v w = w\<lparr>addNodeCmdk := v\<rparr>"

definition dispatch_edgesChanged :: "EdgeChange list \<Rightarrow> 'ft world \<Rightarrow> 'ft world" where
  "dispatch_edgesChanged changes w = w\<lparr>effects := effects w @ [Dispatch_edgesChanged changes]\<rparr>"

definition updateNodeInternals :: "string list \<Rightarrow> 'ft world \<Rightarrow> 'ft world" where
  "updateNodeInternals ids w = w\<lparr>effects := effects w @ [UpdateNodeInternals ids]\<rparr>"

subsection \<open>JavaScript property reads\<close>

text \<open>
  \<^verbatim>\<open>$templates\<close> and the \<^verbatim>\<open>inputs\<close> and \<^verbatim>\<open>outputs\<close> of a template are plain objects keyed
  by strings, and the handler reads them with \<^verbatim>\<open>obj[key]\<close>. Such a read looks through the
  prototype chain: for a key the object does not own it finds the member of
  \<^verbatim>\<open>Object.prototype\<close> of that name, if there is one, and \<^verbatim>\<open>undefined\<close> otherwise. The
  members of \<^verbatim>\<open>Object.prototype\<close> are those of the language standard; each is a function
  or an object, hence truthy.
\<close>

definition object_prototype_keys :: "string list" where
  "object_prototype_keys =
     [''constructor'', ''hasOwnProperty'', ''isPrototypeOf'', ''propertyIsEnumerable'',
      ''toLocaleString'', ''toString'', ''valueOf'', ''__proto__'',
      ''__defineGetter__'', ''__defineSetter__'', ''__lookupGetter__'', ''__lookupSetter__'']"

definition get_property :: "(string \<rightharpoonup> 'a) \<Rightarrow> string \<Rightarrow> 'a js_property option" where
  "get_property obj key =
     (case obj key of
        Some v \<Rightarrow> Some (Own v)
      | None \<Rightarrow> if key \<in> set object_prototype_keys then Some (Inherited key) else None)"

subsection \<open>onConnectStart\<close>

text \<open>
  \<open>nodes\<close> is \<^verbatim>\<open>selectNodes(store.getState())\<close> and \<open>templates\<close> the value of
  \<^verbatim>\<open>$templates\<close> at the call. The result is \<open>Inl\<close> when the handler throws, with the
  error and the world as the throw leaves it, and \<open>Inr\<close> when the handler returns.

  \<open>find_fieldTemplate\<close> is the chain of lookups after the assertion: the node by its
  id, \<^verbatim>\<open>templates[node.data.type]\<close>, then the \<^verbatim>\<open>outputs\<close> of the template for a source
  handle or its \<^verbatim>\<open>inputs\<close> for a target handle, and \<^verbatim>\<open>fieldTemplates[handleId]\<close>. It is
  \<open>Inr None\<close> where the handler returns at a miss (\<^verbatim>\<open>!node\<close>, \<^verbatim>\<open>!template\<close>,
  \<^verbatim>\<open>!fieldTemplate\<close>). When the node's type is no key of \<^verbatim>\<open>$templates\<close> but names a member
  of \<^verbatim>\<open>Object.prototype\<close>, \<^verbatim>\<open>template\<close> is that member: it is truthy and has neither
  \<^verbatim>\<open>outputs\<close> nor \<^verbatim>\<open>inputs\<close>, so \<^verbatim>\<open>fieldTemplates\<close> is \<^verbatim>\<open>undefined\<close> and the read
  \<^verbatim>\<open>fieldTemplates[handleId]\<close> throws a \<^verbatim>\<open>TypeError\<close>.
\<close>

definition find_fieldTemplate ::
    "Node list \<Rightarrow> (string \<rightharpoonup> 'ft Template) \<Rightarrow> string \<Rightarrow> string \<Rightarrow> HandleType \<Rightarrow>
     error + 'ft js_property option" where
  "find_fieldTemplate nodes templates n h t =
     (case find (\<lambda>x. node_id x = n) nodes of
        None \<Rightarrow> Inr None
      | Some node \<Rightarrow>
          (case get_property templates (node_type node) of
             None \<Rightarrow> Inr None
           | Some (Inherited k) \<Rightarrow> Inl TypeError
           | Some (Own template) \<Rightarrow>
               Inr (get_property (if t = Source then outputs template else inputs template) h)))"

definition onConnectStart ::
    "Node list \<Rightarrow> (string \<rightharpoonup> 'ft Template) \<Rightarrow>
     string option \<Rightarrow> string option \<Rightarrow> HandleType option \<Rightarrow>
     'ft world \<Rightarrow> (error \<times> 'ft world) + 'ft world" where
  "onConnectStart nodes templates nid hid htype w =
     (case (truthy_string nid, truthy_string hid, htype) of
        (Some n, Some h, Some t) \<Rightarrow>
          (case find_fieldTemplate nodes templates n h t of
             Inl e \<Rightarrow> Inl (e, w)
           | Inr None \<Rightarrow> Inr w
           | Inr (Some ft) \<Rightarrow>
               Inr (set_pendingConnection
                      (Some \<lparr>nodeId = n, handleId = h, handleType = t, fieldTemplate = ft\<rparr>) w))
      | _ \<Rightarrow> Inl (AssertionError ''Invalid connection start event'', w))"

subsection \<open>onConnect\<close>

text \<open>
  \<^verbatim>\<open>connectionToEdge\<close> lives in \<^verbatim>\<open>reactFlowUtil\<close>, outside this file: it is the parameter
  \<open>connectionToEdge\<close> of the two handlers that call it.
\<close>

definition onConnect ::
    "(Connection \<Rightarrow> Edge) \<Rightarrow> Connection \<Rightarrow> 'ft world \<Rightarrow> 'ft world" where
  "onConnect connectionToEdge connection w =
     (let newEdge = connectionToEdge connection;
          w1 = dispatch_edgesChanged [Add newEdge] w;
          w2 = updateNodeInternals [source newEdge, target newEdge] w1
      in set_pendingConnection None w2)"

subsection \<open>onConnectEnd\<close>

text \<open>
  The resolver \<^verbatim>\<open>getFirstValidConnection\<close> is imported from another module: it is the
  parameter \<open>getFirstValidConnection\<close>, a function of the eight arguments the handler
  passes, returning a connection or nothing.
\<close>

type_synonym 'ft resolver =
  "string \<Rightarrow> string option \<Rightarrow> string \<Rightarrow> string option \<Rightarrow>
   Node list \<Rightarrow> Edge list \<Rightarrow> (string \<rightharpoonup> 'ft Template) \<Rightarrow> Edge option \<Rightarrow> Connection option"

text \<open>The test of the first \<^verbatim>\<open>if\<close> of the handler.\<close>

definition bail_out :: "'ft world \<Rightarrow> bool" where
  "bail_out w =
     ((edgePendingUpdate w \<noteq> None \<and> \<not> truthy (mouseOverNode w)) \<or> didUpdateEdge w)"

text \<open>
  The resolver's call: the pending connection fills the side its handle type names, the
  hovered node the other side, with no handle.
\<close>

definition resolve_candidate ::
    "'ft resolver \<Rightarrow> 'ft PendingConnection \<Rightarrow> string \<Rightarrow>
     Node list \<Rightarrow> Edge list \<Rightarrow> (string \<rightharpoonup> 'ft Template) \<Rightarrow> Edge option \<Rightarrow> Connection option" where
  "resolve_candidate getFirstValidConnection pc mouseOverNodeId nodes edges templates epu =
     (let src = (if handleType pc = Source then nodeId pc else mouseOverNodeId);
          srcHandle = (if handleType pc = Source then Some (handleId pc) else None);
          tgt = (if handleType pc = Target then nodeId pc else mouseOverNodeId);
          tgtHandle = (if handleType pc = Target then Some (handleId pc) else None)
      in getFirstValidConnection src srcHandle tgt tgtHandle nodes edges templates epu)"

text \<open>The body of \<^verbatim>\<open>if (connection) { ... }\<close>.\<close>

definition commit_connection ::
    "(Connection \<Rightarrow> Edge) \<Rightarrow> Connection \<Rightarrow> Edge option \<Rightarrow> 'ft world \<Rightarrow> 'ft world" where
  "commit_connection connectionToEdge connection epu w =
     (let newEdge = connectionToEdge connection;
          edgeChanges = [Add newEdge];
          nodesToUpdate = [source newEdge, target newEdge]
      in case epu of
           None \<Rightarrow>
             updateNodeInternals nodesToUpdate (dispatch_edgesChanged edgeChanges w)
         | Some e \<Rightarrow>
             updateNodeInternals (nodesToUpdate @ [source e, target e])
               (dispatch_edgesChanged (edgeChanges @ [Remove (edge_id e)])
                 (set_didUpdateEdge True w)))"

definition onConnectEnd ::
    "'ft resolver \<Rightarrow> (Connection \<Rightarrow> Edge) \<Rightarrow>
     Node list \<Rightarrow> Edge list \<Rightarrow> (string \<rightharpoonup> 'ft Template) \<Rightarrow> 'ft world \<Rightarrow> 'ft world" where
  "onConnectEnd getFirstValidConnection connectionToEdge nodes edges templates w =
     (if bail_out w then set_pendingConnection None w
      else
        case pendingConnection w of
          None \<Rightarrow> w
        | Some pc \<Rightarrow>
            (case truthy_string (mouseOverNode w) of
               Some mouseOverNodeId \<Rightarrow>
                 (case resolve_candidate getFirstValidConnection pc mouseOverNodeId
                         nodes edges templates (edgePendingUpdate w) of
                    Some connection \<Rightarrow>
                      set_pendingConnection None
                        (commit_connection connectionToEdge connection (edgePendingUpdate w) w)
                  | None \<Rightarrow> set_pendingConnection None w)
             | None \<Rightarrow> set_addNodeCmdk True w))"

subsection \<open>Sequences of calls\<close>

text \<open>
  A call of \<^verbatim>\<open>onConnectStart\<close> with what it reads: the nodes of the store and the
  templates at the time of the call, and the three fields of the event.
\<close>

datatype 'ft start_call =
  StartCall "Node list" "string \<rightharpoonup> 'ft Template" "string option" "string option" "HandleType option"

fun call_onConnectStart ::
    "'ft start_call \<Rightarrow> 'ft world \<Rightarrow> (error \<times> 'ft world) + 'ft world" where
  "call_onConnectStart (StartCall nodes templates nid hid htype) w =
     onConnectStart nodes templates nid hid htype w"

text \<open>The world a call leaves behind, whether it returned or threw.\<close>

fun world_after :: "(error \<times> 'ft world) + 'ft world \<Rightarrow> 'ft world" where
  "world_after (Inl (e, w)) = w"
| "world_after (Inr w) = w"

fun run_starts :: "'ft start_call list \<Rightarrow> 'ft world \<Rightarrow> 'ft world" where
  "run_starts [] w = w"
| "run_starts (c # cs) w = run_starts cs (world_after (call_onConnectStart c w))"

text \<open>
  The pending connection a call records: what the call leaves in \<^verbatim>\<open>$pendingConnection\<close>
  when nothing was pending before it. It is \<open>None\<close> for a call that throws and for a
  call that returns at a missed lookup.
\<close>

definition idle :: "'ft world" where
  "idle = \<lparr>pendingConnection = None, edgePendingUpdate = None, mouseOverNode = None,
            didUpdateEdge = False, addNodeCmdk = False, effects = []\<rparr>"

definition started :: "'ft start_call \<Rightarrow> 'ft PendingConnection option" where
  "started c =
     (case call_onConnectStart c idle of
        Inl _ \<Rightarrow> None
      | Inr w \<Rightarrow> pendingConnection w)"

text \<open>Any interleaving of the three handlers.\<close>

datatype 'ft event =
  ConnectStart "'ft start_call"
  | Connect Connection
  | ConnectEnd "Node list" "Edge list" "string \<rightharpoonup> 'ft Template"

fun step :: "'ft resolver \<Rightarrow> (Connection \<Rightarrow> Edge) \<Rightarrow> 'ft event \<Rightarrow> 'ft world \<Rightarrow> 'ft world" where
  "step getFirstValidConnection connectionToEdge (ConnectStart c) w =
     world_after (call_onConnectStart c w)"
| "step getFirstValidConnection connectionToEdge (Connect connection) w =
     onConnect connectionToEdge connection w"
| "step getFirstValidConnection connectionToEdge (ConnectEnd nodes edges templates) w =
     onConnectEnd getFirstValidConnection connectionToEdge nodes edges templates w"

fun run :: "'ft resolver \<Rightarrow> (Connection \<Rightarrow> Edge) \<Rightarrow> 'ft event list \<Rightarrow> 'ft world \<Rightarrow> 'ft world" where
  "run getFirstValidConnection connectionToEdge [] w = w"
| "run getFirstValidConnection connectionToEdge (ev # evs) w =
     run getFirstValidConnection connectionToEdge evs
       (step getFirstValidConnection connectionToEdge ev w)"

subsection \<open>A small graph for the concrete checks\<close>

text \<open>
  Three nodes \<open>A\<close>, \<open>B\<close>, \<open>C\<close> of one type \<open>add\<close> with inputs \<open>a\<close>, \<open>b\<close> and the
  output \<open>value\<close>; field templates are named by their type. \<open>edge_AB\<close> joins the
  output of \<open>A\<close> to the input \<open>a\<close> of \<open>B\<close>.
\<close>

definition example_nodes :: "Node list" where
  "example_nodes =
     [\<lparr>node_id = ''A'', node_type = ''add''\<rparr>,
      \<lparr>node_id = ''B'', node_type = ''add''\<rparr>,
      \<lparr>node_id = ''C'', node_type = ''add''\<rparr>]"

definition example_template_add :: "string Template" where
  "example_template_add =
     \<lparr>inputs = [''a'' \<mapsto> ''IntegerField'', ''b'' \<mapsto> ''IntegerField''],
      outputs = [''value'' \<mapsto> ''IntegerField'']\<rparr>"

definition example_templates :: "string \<rightharpoonup> string Template" where
  "example_templates = [''add'' \<mapsto> example_template_add]"

text \<open>The same nodes and a node \<open>D\<close> whose type has no template.\<close>

definition example_nodes_D :: "Node list" where
  "example_nodes_D = example_nodes @ [\<lparr>node_id = ''D'', node_type = ''toString''\<rparr>]"

definition edge_AB :: Edge where
  "edge_AB = \<lparr>source = ''A'', sourceHandle = Some ''value'',
               target = ''B'', targetHandle = Some ''a'', edge_id = ''edge-AB''\<rparr>"

definition pending_A :: "string PendingConnection" where
  "pending_A = \<lparr>nodeId = ''A'', handleId = ''value'', handleType = Source,
                 fieldTemplate = Own ''IntegerField''\<rparr>"

text \<open>A resolver that picks the input \<open>a\<close> of the target, and one that rejects everything.\<close>

fun resolver_first_input :: "string resolver" where
  "resolver_first_input src srcHandle tgt tgtHandle nodes edges templates epu =
     Some \<lparr>source = src, sourceHandle = srcHandle, target = tgt, targetHandle = Some ''a''\<rparr>"

fun resolver_none :: "string resolver" where
  "resolver_none src srcHandle tgt tgtHandle nodes edges templates epu = None"

text \<open>An edge builder that names the edge after its endpoints' nodes.\<close>

definition example_connectionToEdge :: "Connection \<Rightarrow> Edge" where
  "example_connectionToEdge c =
     \<lparr>source = source c, sourceHandle = sourceHandle c,
      target = target c, targetHandle = targetHandle c,
      edge_id = source c @ ''-'' @ target c\<rparr>"

text \<open>Worlds for the concrete checks, all with the output of \<open>A\<close> being dragged.\<close>

definition world_dragging :: "string world" where
  "world_dragging = idle\<lparr>pendingConnection := Some pending_A\<rparr>"

definition world_over_B :: "string world" where
  "world_over_B = idle\<lparr>pendingConnection := Some pending_A, mouseOverNode := Some ''B''\<rparr>"

definition world_reconnect_over_C :: "string world" where
  "world_reconnect_over_C =
     idle\<lparr>pendingConnection := Some pending_A, edgePendingUpdate := Some edge_AB,
          mouseOverNode := Some ''C''\<rparr>"

definition world_reconnect_off_node :: "string world" where
  "world_reconnect_off_node =
     idle\<lparr>pendingConnection := Some pending_A, edgePendingUpdate := Some edge_AB\<rparr>"

definition world_updated :: "string world" where
  "world_updated =
     idle\<lparr>pendingConnection := Some pending_A, mouseOverNode := Some ''B'',
          didUpdateEdge := True\<rparr>"

section \<open>Properties\<close>

subsection \<open>Auxiliary facts\<close>

lemma truthy_string_Some_iff: "truthy_string v = Some s \<longleftrightarrow> v = Some s \<and> s \<noteq> []"
  by (cases v) auto

lemma truthy_string_None_iff: "truthy_string v = None \<longleftrightarrow> v = None \<or> v = Some []"
  by (cases v) auto

lemma bail_out_iff:
  "bail_out w \<longleftrightarrow>
     (edgePendingUpdate w \<noteq> None \<and> (mouseOverNode w = None \<or> mouseOverNode w = Some []))
     \<or> didUpdateEdge w"
  by (auto simp: bail_out_def truthy_def truthy_string_None_iff)

lemma not_bail_out_hovering:
  assumes "\<not> bail_out w" and "edgePendingUpdate w \<noteq> None"
  shows "truthy_string (mouseOverNode w) \<noteq> None"
  using assms by (auto simp: bail_out_def truthy_def)

lemma bail_out_clears:
  "bail_out w \<Longrightarrow> onConnectEnd g cte nodes edges templates w = w\<lparr>pendingConnection := None\<rparr>"
  by (simp add: onConnectEnd_def set_pendingConnection_def)

lemma onConnectEnd_not_bail_out:
  assumes "\<not> bail_out w" and "pendingConnection w = Some pc"
  shows "onConnectEnd g cte nodes edges templates w =
           (case truthy_string (mouseOverNode w) of
              Some m \<Rightarrow>
                (case resolve_candidate g pc m nodes edges templates (edgePendingUpdate w) of
                   Some connection \<Rightarrow>
                     set_pendingConnection None
                       (commit_connection cte connection (edgePendingUpdate w) w)
                 | None \<Rightarrow> set_pendingConnection None w)
            | None \<Rightarrow> set_addNodeCmdk True w)"
  using assms by (simp add: onConnectEnd_def)

lemma commit_connection_replace:
  "commit_connection cte connection (Some e) w =
     w\<lparr>didUpdateEdge := True,
       effects := effects w @
         [Dispatch_edgesChanged [Add (cte connection), Remove (edge_id e)],
          UpdateNodeInternals [source (cte connection), target (cte connection),
                               source e, target e]]\<rparr>"
  by (simp add: commit_connection_def Let_def set_didUpdateEdge_def
      dispatch_edgesChanged_def updateNodeInternals_def)

lemma get_property_None_iff:
  "get_property obj key = None \<longleftrightarrow> obj key = None \<and> key \<notin> set object_prototype_keys"
  by (simp add: get_property_def split: option.splits)

lemma get_property_Own_iff: "get_property obj key = Some (Own v) \<longleftrightarrow> obj key = Some v"
  by (simp add: get_property_def split: option.splits)

lemma onConnectStart_throws:
  "truthy_string nid = None \<or> truthy_string hid = None \<or> htype = None \<Longrightarrow>
   onConnectStart nodes templates nid hid htype w =
     Inl (AssertionError ''Invalid connection start event'', w)"
  by (auto simp: onConnectStart_def split: option.splits)

lemma onConnectStart_returns:
  assumes "truthy_string nid = Some n" and "truthy_string hid = Some h"
  shows "onConnectStart nodes templates nid hid (Some t) w =
           (case find_fieldTemplate nodes templates n h t of
              Inl e \<Rightarrow> Inl (e, w)
            | Inr None \<Rightarrow> Inr w
            | Inr (Some ft) \<Rightarrow>
                Inr (w\<lparr>pendingConnection :=
                         Some \<lparr>nodeId = n, handleId = h, handleType = t,
                               fieldTemplate = ft\<rparr>\<rparr>))"
  using assms
  by (simp add: onConnectStart_def set_pendingConnection_def split: option.splits sum.splits)

lemma find_fieldTemplate_throws: "find_fieldTemplate nodes templates n h t = Inl e \<Longrightarrow> e = TypeError"
  by (auto simp: find_fieldTemplate_def split: option.splits js_property.splits)

lemma started_Some_iff:
  "started (StartCall nodes templates nid hid htype) = Some r \<longleftrightarrow>
     truthy_string nid = Some (nodeId r) \<and> truthy_string hid = Some (handleId r) \<and>
     htype = Some (handleType r) \<and>
     find_fieldTemplate nodes templates (nodeId r) (handleId r) (handleType r) =
       Inr (Some (fieldTemplate r))"
proof (cases "truthy_string nid = None \<or> truthy_string hid = None \<or> htype = None")
  case True
  then show ?thesis
    by (auto simp: started_def onConnectStart_throws)
next
  case False
  then obtain n h t where *: "truthy_string nid = Some n" "truthy_string hid = Some h"
      "htype = Some t"
    by auto
  show ?thesis
  proof (cases "find_fieldTemplate nodes templates n h t")
    case (Inl e)
    then show ?thesis
      by (auto simp: started_def * onConnectStart_returns [OF *(1,2)])
  next
    case (Inr found)
    then show ?thesis
      by (cases found) (auto simp: started_def * onConnectStart_returns [OF *(1,2)] idle_def)
  qed
qed

lemma world_after_call:
  "world_after (call_onConnectStart c w) =
     (case started c of None \<Rightarrow> w | Some r \<Rightarrow> w\<lparr>pendingConnection := Some r\<rparr>)"
proof (cases c)
  case (StartCall nodes templates nid hid htype)
  show ?thesis
  proof (cases "truthy_string nid = None \<or> truthy_string hid = None \<or> htype = None")
    case True
    then show ?thesis
      by (auto simp: StartCall started_def onConnectStart_throws)
  next
    case False
    then obtain n h t where *: "truthy_string nid = Some n" "truthy_string hid = Some h"
        "htype = Some t"
      by auto
    show ?thesis
    proof (cases "find_fieldTemplate nodes templates n h t")
      case (Inl e)
      then show ?thesis
        by (simp add: StartCall started_def * onConnectStart_returns [OF *(1,2)])
    next
      case (Inr found)
      then show ?thesis
        by (cases found)
           (simp_all add: StartCall started_def * onConnectStart_returns [OF *(1,2)] idle_def)
    qed
  qed
qed

lemma onConnectStart_throw_keeps_world:
  "onConnectStart nodes templates nid hid htype w = Inl (e, w') \<Longrightarrow> w' = w"
  by (auto simp: onConnectStart_def split: option.splits sum.splits)

lemma run_starts_no_success:
  "\<forall>c\<in>set cs. started c = None \<Longrightarrow> run_starts cs w = w"
  by (induction cs arbitrary: w) (simp_all add: world_after_call)

lemma run_starts_append:
  "run_starts (cs @ ds) w = run_starts ds (run_starts cs w)"
  by (induction cs arbitrary: w) simp_all

lemma step_keeps_didUpdateEdge:
  assumes "didUpdateEdge w"
  shows "didUpdateEdge (step g cte ev w)"
proof (cases ev)
  case (ConnectStart c)
  with assms show ?thesis
    by (simp add: world_after_call split: option.splits)
next
  case (Connect connection)
  with assms show ?thesis
    by (simp add: onConnect_def Let_def set_pendingConnection_def
        dispatch_edgesChanged_def updateNodeInternals_def)
next
  case (ConnectEnd nodes edges templates)
  with assms show ?thesis
    by (simp add: bail_out_clears bail_out_def)
qed

lemma run_keeps_didUpdateEdge:
  "didUpdateEdge w \<Longrightarrow> didUpdateEdge (run g cte evs w)"
  by (induction evs arbitrary: w) (simp_all add: step_keeps_didUpdateEdge del: step.simps)

subsection \<open>onConnectEnd\<close>

text \<open>
  C1. A pending connection is set, the pointer is over a node, the handler does not bail
  out, an edge \<open>e\<close> is pending update and the resolver returns a connection. Then the
  handler dispatches one batch, the addition of the new edge followed by the removal of
  \<open>e\<close> by its id, then asks once for a refresh of the new edge's two nodes and of the two
  nodes of \<open>e\<close>; it sets \<^verbatim>\<open>$didUpdateEdge\<close> and clears the pending connection. Nothing
  else changes.
\<close>

theorem onConnectEnd_reconnect:
  assumes pending: "pendingConnection w = Some pc"
    and over: "mouseOverNode w = Some m"
    and no_bail: "\<not> bail_out w"
    and update: "edgePendingUpdate w = Some e"
    and resolved: "resolve_candidate getFirstValidConnection pc m nodes edges templates (Some e)
                     = Some connection"
  shows "(let newEdge = connectionToEdge connection in
          onConnectEnd getFirstValidConnection connectionToEdge nodes edges templates w =
            w\<lparr>didUpdateEdge := True,
              effects := effects w @
                [Dispatch_edgesChanged [Add newEdge, Remove (edge_id e)],
                 UpdateNodeInternals [source newEdge, target newEdge, source e, target e]],
              pendingConnection := None\<rparr>
          \<and> set [source newEdge, target newEdge, source e, target e] =
              {source newEdge, target newEdge, source e, target e})"
proof -
  from no_bail update have "truthy_string (mouseOverNode w) \<noteq> None"
    by (simp add: not_bail_out_hovering)
  with over have m: "truthy_string (mouseOverNode w) = Some m"
    by (simp split: if_splits)
  show ?thesis
    unfolding onConnectEnd_not_bail_out [OF no_bail pending] Let_def
    by (simp add: m update resolved commit_connection_replace set_pendingConnection_def)
qed

theorem onConnectEnd_reconnect_witness:
  "pendingConnection world_reconnect_over_C = Some pending_A
   \<and> mouseOverNode world_reconnect_over_C = Some ''C''
   \<and> \<not> bail_out world_reconnect_over_C
   \<and> edgePendingUpdate world_reconnect_over_C = Some edge_AB
   \<and> resolve_candidate resolver_first_input pending_A ''C'' example_nodes [edge_AB]
        example_templates (Some edge_AB)
      = Some \<lparr>source = ''A'', sourceHandle = Some ''value'',
               target = ''C'', targetHandle = Some ''a''\<rparr>
   \<and> onConnectEnd resolver_first_input example_connectionToEdge example_nodes [edge_AB]
        example_templates world_reconnect_over_C
      = \<lparr>pendingConnection = None, edgePendingUpdate = Some edge_AB,
         mouseOverNode = Some ''C'', didUpdateEdge = True, addNodeCmdk = False,
         effects =
           [Dispatch_edgesChanged
              [Add \<lparr>source = ''A'', sourceHandle = Some ''value'',
                    target = ''C'', targetHandle = Some ''a'', edge_id = ''A-C''\<rparr>,
               Remove ''edge-AB''],
            UpdateNodeInternals [''A'', ''C'', ''A'', ''B'']]\<rparr>"
proof -
  have h1: "pendingConnection world_reconnect_over_C = Some pending_A"
    and h2: "mouseOverNode world_reconnect_over_C = Some ''C''"
    and h3: "\<not> bail_out world_reconnect_over_C"
    and h4: "edgePendingUpdate world_reconnect_over_C = Some edge_AB"
    by (simp_all add: world_reconnect_over_C_def idle_def bail_out_def truthy_def)
  have h5: "resolve_candidate resolver_first_input pending_A ''C'' example_nodes [edge_AB]
        example_templates (Some edge_AB)
      = Some \<lparr>source = ''A'', sourceHandle = Some ''value'',
               target = ''C'', targetHandle = Some ''a''\<rparr>"
    by (simp add: resolve_candidate_def pending_A_def)
  from onConnectEnd_reconnect [OF h1 h2 h3 h4 h5, of example_connectionToEdge]
  show ?thesis
    by (simp add: h1 h2 h3 h4 h5 Let_def)
       (simp add: world_reconnect_over_C_def idle_def example_connectionToEdge_def edge_AB_def)
qed

text \<open>
  C2. When an edge is pending update and the pointer is over no node, or when
  \<^verbatim>\<open>$didUpdateEdge\<close> is true, the handler clears the pending connection and does nothing
  else: no batch is dispatched and no refresh is requested, whatever the pending
  connection, the store, the templates and the resolver are.
\<close>

theorem onConnectEnd_bails_out:
  assumes "(edgePendingUpdate w \<noteq> None \<and> mouseOverNode w = None) \<or> didUpdateEdge w"
  shows "onConnectEnd getFirstValidConnection connectionToEdge nodes edges templates w =
           w\<lparr>pendingConnection := None\<rparr>"
proof -
  from assms have "bail_out w"
    by (auto simp: bail_out_def truthy_def)
  then show ?thesis
    by (rule bail_out_clears)
qed

theorem onConnectEnd_bails_out_witness:
  "((edgePendingUpdate world_reconnect_off_node \<noteq> None
       \<and> mouseOverNode world_reconnect_off_node = None)
     \<or> didUpdateEdge world_reconnect_off_node)
   \<and> onConnectEnd resolver_first_input example_connectionToEdge example_nodes [edge_AB]
        example_templates world_reconnect_off_node
      = \<lparr>pendingConnection = None, edgePendingUpdate = Some edge_AB,
         mouseOverNode = None, didUpdateEdge = False, addNodeCmdk = False, effects = []\<rparr>"
proof -
  have h: "(edgePendingUpdate world_reconnect_off_node \<noteq> None
       \<and> mouseOverNode world_reconnect_off_node = None)
     \<or> didUpdateEdge world_reconnect_off_node"
    by (simp add: world_reconnect_off_node_def idle_def)
  from onConnectEnd_bails_out [OF h] show ?thesis
    by (simp add: h) (simp add: world_reconnect_off_node_def idle_def)
qed

text \<open>
  C3. A pending connection is set, the handler does not bail out and the pointer is over
  no node. Then the handler sets \<^verbatim>\<open>$addNodeCmdk\<close> (it asks for the add-node popover) and
  changes nothing else: the pending connection stays, no batch is dispatched and no
  refresh is requested.
\<close>

theorem onConnectEnd_empty_canvas:
  assumes "pendingConnection w = Some pc"
    and "\<not> bail_out w"
    and "mouseOverNode w = None"
  shows "onConnectEnd getFirstValidConnection connectionToEdge nodes edges templates w =
           w\<lparr>addNodeCmdk := True\<rparr>"
  unfolding onConnectEnd_not_bail_out [OF assms(2,1)]
  by (simp add: assms(3) set_addNodeCmdk_def)

theorem onConnectEnd_empty_canvas_witness:
  "pendingConnection world_dragging = Some pending_A
   \<and> \<not> bail_out world_dragging
   \<and> mouseOverNode world_dragging = None
   \<and> onConnectEnd resolver_first_input example_connectionToEdge example_nodes []
        example_templates world_dragging
      = \<lparr>pendingConnection = Some pending_A, edgePendingUpdate = None,
         mouseOverNode = None, didUpdateEdge = False, addNodeCmdk = True, effects = []\<rparr>"
proof -
  have h1: "pendingConnection world_dragging = Some pending_A"
    and h2: "\<not> bail_out world_dragging"
    and h3: "mouseOverNode world_dragging = None"
    by (simp_all add: world_dragging_def idle_def bail_out_def)
  from onConnectEnd_empty_canvas [OF h1 h2 h3] show ?thesis
    by (simp add: h1 h2 h3) (simp add: world_dragging_def idle_def)
qed

text \<open>
  C5. A pending connection is set, the handler does not bail out, and \<^verbatim>\<open>$mouseOverNode\<close>
  is set: it holds an id \<open>m\<close> that passes the test \<^verbatim>\<open>if (mouseOverNodeId)\<close>, so the handler
  calls the resolver for the pending connection and \<open>m\<close>. If the resolver returns
  nothing, the handler clears the pending connection and does nothing else: no batch is
  dispatched and no refresh is requested. And whatever the resolver returns, a
  connection or nothing, the pending connection is cleared.
\<close>

theorem onConnectEnd_rejected:
  assumes "pendingConnection w = Some pc"
    and "\<not> bail_out w"
    and "mouseOverNode w = Some m" and "truthy (mouseOverNode w)"
  shows "(resolve_candidate getFirstValidConnection pc m nodes edges templates
            (edgePendingUpdate w) = None \<longrightarrow>
          onConnectEnd getFirstValidConnection connectionToEdge nodes edges templates w =
            w\<lparr>pendingConnection := None\<rparr>)
         \<and> pendingConnection
             (onConnectEnd getFirstValidConnection connectionToEdge nodes edges templates w)
           = None"
proof -
  from assms(3,4) have m: "truthy_string (mouseOverNode w) = Some m"
    by (simp add: truthy_def split: if_splits)
  show ?thesis
    unfolding onConnectEnd_not_bail_out [OF assms(2,1)]
    by (simp add: m set_pendingConnection_def split: option.splits)
qed

theorem onConnectEnd_rejected_witness:
  "pendingConnection world_over_B = Some pending_A
   \<and> \<not> bail_out world_over_B
   \<and> mouseOverNode world_over_B = Some ''B'' \<and> truthy (mouseOverNode world_over_B)
   \<and> resolve_candidate resolver_none pending_A ''B'' example_nodes [] example_templates
        (edgePendingUpdate world_over_B) = None
   \<and> onConnectEnd resolver_none example_connectionToEdge example_nodes []
        example_templates world_over_B
      = \<lparr>pendingConnection = None, edgePendingUpdate = None,
         mouseOverNode = Some ''B'', didUpdateEdge = False, addNodeCmdk = False,
         effects = []\<rparr>
   \<and> resolve_candidate resolver_first_input pending_A ''B'' example_nodes []
        example_templates (edgePendingUpdate world_over_B) \<noteq> None
   \<and> pendingConnection
        (onConnectEnd resolver_first_input example_connectionToEdge example_nodes []
           example_templates world_over_B) = None"
proof -
  have h1: "pendingConnection world_over_B = Some pending_A"
    and h2: "\<not> bail_out world_over_B"
    and h3: "mouseOverNode world_over_B = Some ''B''"
    and h4: "truthy (mouseOverNode world_over_B)"
    by (simp_all add: world_over_B_def idle_def bail_out_def truthy_def)
  have h5: "resolve_candidate resolver_none pending_A ''B'' example_nodes []
        example_templates (edgePendingUpdate world_over_B) = None"
    and h6: "resolve_candidate resolver_first_input pending_A ''B'' example_nodes []
        example_templates (edgePendingUpdate world_over_B) \<noteq> None"
    by (simp_all add: resolve_candidate_def)
  from onConnectEnd_rejected [OF h1 h2 h3 h4, of resolver_none example_nodes "[]"
      example_templates example_connectionToEdge]
    onConnectEnd_rejected [OF h1 h2 h3 h4, of resolver_first_input example_nodes "[]"
      example_templates example_connectionToEdge]
  show ?thesis
    by (simp add: h1 h2 h3 h4 h5 h6) (simp add: world_over_B_def idle_def truthy_def)
qed

text \<open>
  C10. When the handler does not bail out and no connection is pending, it returns with
  every atom as it was and without calling the store or the renderer. In particular
  \<^verbatim>\<open>$addNodeCmdk\<close> is not set, also when the pointer is over no node.
\<close>

theorem onConnectEnd_nothing_pending:
  assumes "\<not> bail_out w" and "pendingConnection w = None"
  shows "onConnectEnd getFirstValidConnection connectionToEdge nodes edges templates w = w"
  using assms by (simp add: onConnectEnd_def)

theorem onConnectEnd_nothing_pending_witness:
  "\<not> bail_out (idle :: string world)
   \<and> pendingConnection (idle :: string world) = None
   \<and> mouseOverNode (idle :: string world) = None
   \<and> onConnectEnd resolver_first_input example_connectionToEdge example_nodes []
        example_templates idle = idle
   \<and> \<not> addNodeCmdk
        (onConnectEnd resolver_first_input example_connectionToEdge example_nodes []
           example_templates idle)"
proof -
  have h1: "\<not> bail_out (idle :: string world)"
    and h2: "pendingConnection (idle :: string world) = None"
    by (simp_all add: idle_def bail_out_def)
  from onConnectEnd_nothing_pending [OF h1 h2] show ?thesis
    by (simp add: h1 h2) (simp add: idle_def)
qed

subsection \<open>onConnect\<close>

text \<open>
  C4. For every connection and every world, \<^verbatim>\<open>onConnect\<close> dispatches one batch holding
  the addition of the edge built from the connection, then asks once for a refresh of
  that edge's source and target, and clears the pending connection. Nothing else
  changes, and what is dispatched and refreshed is a function of the connection alone:
  no atom is read and no resolver is consulted.
\<close>

theorem onConnect_effects:
  "onConnect connectionToEdge connection w =
     w\<lparr>effects := effects w @
          [Dispatch_edgesChanged [Add (connectionToEdge connection)],
           UpdateNodeInternals [source (connectionToEdge connection),
                                target (connectionToEdge connection)]],
       pendingConnection := None\<rparr>"
  by (simp add: onConnect_def Let_def set_pendingConnection_def
      dispatch_edgesChanged_def updateNodeInternals_def)

subsection \<open>onConnectStart\<close>

text \<open>
  C6. In a sequence of \<^verbatim>\<open>onConnectStart\<close> calls (no other handler runs in between; a call
  that throws leaves the world to the next call), take the most recent call that
  succeeded, that is, that recorded a pending connection \<open>r\<close>: no later call of the
  sequence succeeded. After the sequence the one pending connection of the world
  (\<^verbatim>\<open>$pendingConnection\<close> holds at most one) is \<open>r\<close>, and \<open>r\<close> is made of that call's node
  id, handle id and handle type and of the field template its lookups found.
\<close>

theorem onConnectStart_most_recent:
  assumes "started (StartCall nodes templates nid hid htype) = Some r"
    and "\<forall>c\<in>set later. started c = None"
  shows "pendingConnection
           (run_starts (earlier @ StartCall nodes templates nid hid htype # later) w) = Some r
         \<and> nid = Some (nodeId r) \<and> hid = Some (handleId r) \<and> htype = Some (handleType r)
         \<and> find_fieldTemplate nodes templates (nodeId r) (handleId r) (handleType r) =
             Inr (Some (fieldTemplate r))"
proof -
  have "pendingConnection
          (run_starts (earlier @ StartCall nodes templates nid hid htype # later) w) = Some r"
    by (simp add: run_starts_append run_starts_no_success [OF assms(2)]
        world_after_call assms(1) del: call_onConnectStart.simps)
  moreover from assms(1) have "nid = Some (nodeId r)" "hid = Some (handleId r)"
      "htype = Some (handleType r)"
      "find_fieldTemplate nodes templates (nodeId r) (handleId r) (handleType r) =
         Inr (Some (fieldTemplate r))"
    by (simp_all add: started_Some_iff truthy_string_Some_iff)
  ultimately show ?thesis
    by simp
qed

theorem onConnectStart_most_recent_witness:
  "started (StartCall example_nodes example_templates (Some ''B'') (Some ''a'') (Some Target))
     = Some \<lparr>nodeId = ''B'', handleId = ''a'', handleType = Target,
              fieldTemplate = Own ''IntegerField''\<rparr>
   \<and> started (StartCall example_nodes example_templates (Some ''Z'') (Some ''a'') (Some Target))
       = None
   \<and> started (StartCall example_nodes example_templates None (Some ''a'') (Some Target))
       = None
   \<and> pendingConnection
        (run_starts
           [StartCall example_nodes example_templates (Some ''A'') (Some ''value'') (Some Source),
            StartCall example_nodes example_templates (Some ''B'') (Some ''a'') (Some Target),
            StartCall example_nodes example_templates (Some ''Z'') (Some ''a'') (Some Target),
            StartCall example_nodes example_templates None (Some ''a'') (Some Target)]
           idle)
      = Some \<lparr>nodeId = ''B'', handleId = ''a'', handleType = Target,
               fieldTemplate = Own ''IntegerField''\<rparr>"
proof -
  have h1: "started (StartCall example_nodes example_templates (Some ''B'') (Some ''a'') (Some Target))
     = Some \<lparr>nodeId = ''B'', handleId = ''a'', handleType = Target,
              fieldTemplate = Own ''IntegerField''\<rparr>"
    by (simp add: started_Some_iff find_fieldTemplate_def get_property_def example_nodes_def
        example_templates_def example_template_add_def)
  have h2: "started (StartCall example_nodes example_templates (Some ''Z'') (Some ''a'') (Some Target))
       = None"
    by (simp add: started_def onConnectStart_def find_fieldTemplate_def example_nodes_def
        idle_def)
  have h3: "started (StartCall example_nodes example_templates None (Some ''a'') (Some Target))
       = None"
    by (simp add: started_def onConnectStart_def idle_def)
  have later: "\<forall>c\<in>set
      [StartCall example_nodes example_templates (Some ''Z'') (Some ''a'') (Some Target),
       StartCall example_nodes example_templates None (Some ''a'') (Some Target)].
      started c = None"
    by (simp add: h2 h3)
  from onConnectStart_most_recent [OF h1 later,
      of "[StartCall example_nodes example_templates (Some ''A'') (Some ''value'') (Some Source)]"
         idle]
  show ?thesis
    by (simp add: h1 h2 h3)
qed

text \<open>
  C7, as the claim states it, fails for a handle id that is present but empty: the
  assertion \<^verbatim>\<open>assert(nodeId && handleId && handleType, ...)\<close> tests by truthiness, and
  the call throws although none of the three fields is absent.
\<close>

theorem onConnectStart_raises_counterexample:
  "Some ''A'' \<noteq> (None :: string option)
   \<and> Some '''' \<noteq> (None :: string option)
   \<and> Some Source \<noteq> None
   \<and> onConnectStart example_nodes example_templates (Some ''A'') (Some '''') (Some Source)
        world_dragging
      = Inl (AssertionError ''Invalid connection start event'', world_dragging)"
  by (simp add: onConnectStart_def)

text \<open>
  C7, amended. \<^verbatim>\<open>onConnectStart\<close> throws the assertion's error exactly when the node id or
  the handle id is absent or the empty string, or the handle type is absent; the error
  then carries the message of the assertion. Whenever the handler throws, the world is
  as it was before the call.
\<close>

theorem onConnectStart_raises_iff:
  "((\<exists>msg w'. onConnectStart nodes templates nid hid htype w = Inl (AssertionError msg, w'))
      \<longleftrightarrow> nid = None \<or> nid = Some [] \<or> hid = None \<or> hid = Some [] \<or> htype = None)
   \<and> (nid = None \<or> nid = Some [] \<or> hid = None \<or> hid = Some [] \<or> htype = None \<longrightarrow>
        onConnectStart nodes templates nid hid htype w =
          Inl (AssertionError ''Invalid connection start event'', w))
   \<and> (\<forall>e w'. onConnectStart nodes templates nid hid htype w = Inl (e, w') \<longrightarrow> w' = w)"
proof (cases "truthy_string nid = None \<or> truthy_string hid = None \<or> htype = None")
  case True
  then have "onConnectStart nodes templates nid hid htype w =
      Inl (AssertionError ''Invalid connection start event'', w)"
    by (rule onConnectStart_throws)
  moreover from True
  have "nid = None \<or> nid = Some [] \<or> hid = None \<or> hid = Some [] \<or> htype = None"
    by (auto simp: truthy_string_None_iff)
  ultimately show ?thesis
    by simp
next
  case False
  then obtain n h t where *: "truthy_string nid = Some n" "truthy_string hid = Some h"
      "htype = Some t"
    by auto
  have "\<not> (\<exists>msg w'. onConnectStart nodes templates nid hid htype w =
      Inl (AssertionError msg, w'))"
    by (auto simp: *(3) onConnectStart_returns [OF *(1,2)]
        split: sum.splits option.splits dest: find_fieldTemplate_throws)
  moreover from *
  have "\<not> (nid = None \<or> nid = Some [] \<or> hid = None \<or> hid = Some [] \<or> htype = None)"
    by (auto simp: truthy_string_Some_iff)
  moreover have "\<forall>e w'. onConnectStart nodes templates nid hid htype w = Inl (e, w') \<longrightarrow> w' = w"
    by (auto dest: onConnectStart_throw_keeps_world)
  ultimately show ?thesis
    by simp
qed

theorem onConnectStart_raises_iff_witness:
  "((None :: string option) = None \<or> (None :: string option) = Some []
      \<or> Some ''value'' = (None :: string option) \<or> Some ''value'' = Some []
      \<or> Some Source = None)
   \<and> onConnectStart example_nodes example_templates None (Some ''value'') (Some Source)
        world_dragging
      = Inl (AssertionError ''Invalid connection start event'', world_dragging)
   \<and> onConnectStart example_nodes_D example_templates (Some ''D'') (Some ''value'')
        (Some Source) world_dragging
      = Inl (TypeError, world_dragging)"
proof -
  have t: "onConnectStart example_nodes_D example_templates (Some ''D'') (Some ''value'')
        (Some Source) world_dragging
      = Inl (TypeError, snd (projl (onConnectStart example_nodes_D example_templates
          (Some ''D'') (Some ''value'') (Some Source) world_dragging)))"
    by (simp add: onConnectStart_def find_fieldTemplate_def get_property_def
        example_nodes_D_def example_nodes_def example_templates_def example_template_add_def
        object_prototype_keys_def)
  from onConnectStart_raises_iff [of example_nodes_D example_templates "Some ''D''"
      "Some ''value''" "Some Source" world_dragging] t
  have "snd (projl (onConnectStart example_nodes_D example_templates
          (Some ''D'') (Some ''value'') (Some Source) world_dragging)) = world_dragging"
    by blast
  with t have "onConnectStart example_nodes_D example_templates (Some ''D'') (Some ''value'')
        (Some Source) world_dragging = Inl (TypeError, world_dragging)"
    by simp
  with onConnectStart_raises_iff [of example_nodes example_templates None "Some ''value''"
      "Some Source" world_dragging]
  show ?thesis
    by simp
qed

text \<open>
  C8, as the claim states it, fails in three ways. A node id that is present but empty
  names no node, and the call throws at the assertion. A node whose type has no template
  but names a member of \<^verbatim>\<open>Object.prototype\<close> (\<^verbatim>\<open>toString\<close>) makes the read
  \<^verbatim>\<open>fieldTemplates[handleId]\<close> throw a \<^verbatim>\<open>TypeError\<close>. And a handle id with no entry among
  the template's outputs that names such a member (\<^verbatim>\<open>constructor\<close>) is found by the read,
  so the call records a pending connection.
\<close>

theorem onConnectStart_miss_counterexample:
  "Some '''' \<noteq> (None :: string option)
   \<and> Some ''value'' \<noteq> (None :: string option)
   \<and> Some Source \<noteq> None
   \<and> '''' \<notin> set (map node_id example_nodes)
   \<and> onConnectStart example_nodes example_templates (Some '''') (Some ''value'')
        (Some Source) world_dragging
      = Inl (AssertionError ''Invalid connection start event'', world_dragging)
   \<and> \<lparr>node_id = ''D'', node_type = ''toString''\<rparr> \<in> set example_nodes_D
   \<and> ''D'' \<notin> set (map node_id example_nodes)
   \<and> example_templates ''toString'' = None
   \<and> onConnectStart example_nodes_D example_templates (Some ''D'') (Some ''value'')
        (Some Source) world_dragging
      = Inl (TypeError, world_dragging)
   \<and> \<lparr>node_id = ''B'', node_type = ''add''\<rparr> \<in> set example_nodes
   \<and> example_templates ''add'' = Some example_template_add
   \<and> outputs example_template_add ''constructor'' = None
   \<and> onConnectStart example_nodes example_templates (Some ''B'') (Some ''constructor'')
        (Some Source) world_dragging
      = Inr (world_dragging\<lparr>pendingConnection :=
               Some \<lparr>nodeId = ''B'', handleId = ''constructor'', handleType = Source,
                     fieldTemplate = Inherited ''constructor''\<rparr>\<rparr>)
   \<and> world_dragging\<lparr>pendingConnection :=
        Some \<lparr>nodeId = ''B'', handleId = ''constructor'', handleType = Source,
              fieldTemplate = Inherited ''constructor''\<rparr>\<rparr> \<noteq> world_dragging"
  by (simp add: onConnectStart_def find_fieldTemplate_def get_property_def
      example_nodes_D_def example_nodes_def example_templates_def example_template_add_def
      object_prototype_keys_def
      set_pendingConnection_def world_dragging_def idle_def pending_A_def)

text \<open>
  C8, amended. In a call with all three fields present and the node id and the handle id
  not empty, if no node has the id, or the node's type has no template and is not the
  name of a member of \<^verbatim>\<open>Object.prototype\<close>, or the template's outputs (for a source
  handle) or inputs (for a target handle) have no entry for the handle id and the handle
  id is not the name of a member of \<^verbatim>\<open>Object.prototype\<close>, the call returns without an
  error and leaves the world, the pending connection included, as it was.
\<close>

theorem onConnectStart_miss:
  assumes "n \<noteq> []" and "h \<noteq> []"
    and "find (\<lambda>x. node_id x = n) nodes = None
         \<or> (\<exists>node. find (\<lambda>x. node_id x = n) nodes = Some node
               \<and> templates (node_type node) = None
               \<and> node_type node \<notin> set object_prototype_keys)
         \<or> (\<exists>node template. find (\<lambda>x. node_id x = n) nodes = Some node
               \<and> templates (node_type node) = Some template
               \<and> (if t = Source then outputs template else inputs template) h = None
               \<and> h \<notin> set object_prototype_keys)"
  shows "onConnectStart nodes templates (Some n) (Some h) (Some t) w = Inr w"
proof -
  from assms(3) have "find_fieldTemplate nodes templates n h t = Inr None"
    by (auto simp: find_fieldTemplate_def get_property_def)
  with assms(1,2) show ?thesis
    by (simp add: onConnectStart_def)
qed

theorem onConnectStart_miss_witness:
  "''A'' \<noteq> [] \<and> ''in9'' \<noteq> []
   \<and> find (\<lambda>x. node_id x = ''A'') example_nodes
       = Some \<lparr>node_id = ''A'', node_type = ''add''\<rparr>
   \<and> (\<exists>template. example_templates ''add'' = Some template \<and> inputs template ''in9'' = None)
   \<and> ''in9'' \<notin> set object_prototype_keys
   \<and> onConnectStart example_nodes example_templates (Some ''A'') (Some ''in9'') (Some Target)
        world_dragging
      = Inr world_dragging"
proof -
  have h1: "''A'' \<noteq> []" and h2: "''in9'' \<noteq> []"
    by simp_all
  have h3: "find (\<lambda>x. node_id x = ''A'') example_nodes
       = Some \<lparr>node_id = ''A'', node_type = ''add''\<rparr>"
    by (simp add: example_nodes_def)
  have h4: "\<exists>template. example_templates ''add'' = Some template \<and> inputs template ''in9'' = None"
    by (simp add: example_templates_def example_template_add_def)
  have h5: "''in9'' \<notin> set object_prototype_keys"
    by (simp add: object_prototype_keys_def)
  from h3 h4 h5 have h6: "find (\<lambda>x. node_id x = ''A'') example_nodes = None
         \<or> (\<exists>node. find (\<lambda>x. node_id x = ''A'') example_nodes = Some node
               \<and> example_templates (node_type node) = None
               \<and> node_type node \<notin> set object_prototype_keys)
         \<or> (\<exists>node template. find (\<lambda>x. node_id x = ''A'') example_nodes = Some node
               \<and> example_templates (node_type node) = Some template
               \<and> (if Target = Source then outputs template else inputs template) ''in9'' = None
               \<and> ''in9'' \<notin> set object_prototype_keys)"
    by auto
  from onConnectStart_miss [OF h1 h2 h6, of world_dragging] h3 h4 h5 show ?thesis
    by simp
qed

subsection \<open>The three handlers together\<close>

text \<open>
  C9. No handler resets \<^verbatim>\<open>$didUpdateEdge\<close>: once it is true it is true after any sequence
  of calls of the three handlers, and every \<^verbatim>\<open>onConnectEnd\<close> call made then bails out:
  it clears the pending connection and does nothing else, so no batch is dispatched, no
  refresh is requested and the add-node popover is not asked for.
\<close>

theorem didUpdateEdge_latches:
  assumes "didUpdateEdge w"
  shows "didUpdateEdge (run getFirstValidConnection connectionToEdge evs w)
         \<and> bail_out (run getFirstValidConnection connectionToEdge evs w)
         \<and> onConnectEnd getFirstValidConnection connectionToEdge nodes edges templates
             (run getFirstValidConnection connectionToEdge evs w) =
           (run getFirstValidConnection connectionToEdge evs w)\<lparr>pendingConnection := None\<rparr>"
proof -
  have d: "didUpdateEdge (run getFirstValidConnection connectionToEdge evs w)"
    using assms by (rule run_keeps_didUpdateEdge)
  then have b: "bail_out (run getFirstValidConnection connectionToEdge evs w)"
    by (simp add: bail_out_def)
  from d b show ?thesis
    by (simp add: bail_out_clears)
qed

theorem didUpdateEdge_latches_witness:
  "didUpdateEdge world_updated
   \<and> run resolver_first_input example_connectionToEdge
        [ConnectStart (StartCall example_nodes example_templates (Some ''B'') (Some ''a'')
           (Some Target)),
         ConnectEnd example_nodes [] example_templates,
         Connect \<lparr>source = ''A'', sourceHandle = Some ''value'',
                  target = ''B'', targetHandle = Some ''a''\<rparr>]
        world_updated
      = \<lparr>pendingConnection = None, edgePendingUpdate = None, mouseOverNode = Some ''B'',
         didUpdateEdge = True, addNodeCmdk = False,
         effects =
           [Dispatch_edgesChanged
              [Add \<lparr>source = ''A'', sourceHandle = Some ''value'',
                    target = ''B'', targetHandle = Some ''a'', edge_id = ''A-B''\<rparr>],
            UpdateNodeInternals [''A'', ''B'']]\<rparr>
   \<and> onConnectEnd resolver_first_input example_connectionToEdge example_nodes []
        example_templates
        (run resolver_first_input example_connectionToEdge
           [ConnectStart (StartCall example_nodes example_templates (Some ''B'') (Some ''a'')
              (Some Target)),
            ConnectEnd example_nodes [] example_templates,
            Connect \<lparr>source = ''A'', sourceHandle = Some ''value'',
                     target = ''B'', targetHandle = Some ''a''\<rparr>]
           world_updated)
      = \<lparr>pendingConnection = None, edgePendingUpdate = None, mouseOverNode = Some ''B'',
         didUpdateEdge = True, addNodeCmdk = False,
         effects =
           [Dispatch_edgesChanged
              [Add \<lparr>source = ''A'', sourceHandle = Some ''value'',
                    target = ''B'', targetHandle = Some ''a'', edge_id = ''A-B''\<rparr>],
            UpdateNodeInternals [''A'', ''B'']]\<rparr>"
proof -
  have h: "didUpdateEdge world_updated"
    by (simp add: world_updated_def idle_def)
  have r: "run resolver_first_input example_connectionToEdge
        [ConnectStart (StartCall example_nodes example_templates (Some ''B'') (Some ''a'')
           (Some Target)),
         ConnectEnd example_nodes [] example_templates,
         Connect \<lparr>source = ''A'', sourceHandle = Some ''value'',
                  target = ''B'', targetHandle = Some ''a''\<rparr>]
        world_updated
      = \<lparr>pendingConnection = None, edgePendingUpdate = None, mouseOverNode = Some ''B'',
         didUpdateEdge = True, addNodeCmdk = False,
         effects =
           [Dispatch_edgesChanged
              [Add \<lparr>source = ''A'', sourceHandle = Some ''value'',
                    target = ''B'', targetHandle = Some ''a'', edge_id = ''A-B''\<rparr>],
            UpdateNodeInternals [''A'', ''B'']]\<rparr>"
    by (simp add: world_updated_def idle_def onConnectStart_def find_fieldTemplate_def
        get_property_def example_nodes_def example_templates_def example_template_add_def
        set_pendingConnection_def
        onConnectEnd_def bail_out_def onConnect_def Let_def dispatch_edgesChanged_def
        updateNodeInternals_def example_connectionToEdge_def)
  from didUpdateEdge_latches [OF h, of resolver_first_input example_connectionToEdge
      "[ConnectStart (StartCall example_nodes example_templates (Some ''B'') (Some ''a'')
           (Some Target)),
         ConnectEnd example_nodes [] example_templates,
         Connect \<lparr>source = ''A'', sourceHandle = Some ''value'',
                  target = ''B'', targetHandle = Some ''a''\<rparr>]"
      example_nodes "[]" example_templates]
  show ?thesis
    unfolding r by (simp add: h)
qed

end
